theory Spec2Isabelle
  imports Complex_Main "HOL-Library.Char_ord" "HOL-Library.List_Lexorder"
begin

section \<open>Strings\<close>

text \<open>
  Python strings are modelled as lists of characters. The ASCII range behaves as in
  Python; a character with code 128 or more is treated as a caseless letter (neither
  whitespace nor a digit, unchanged by \<open>upper\<close> and \<open>lower\<close>).
\<close>

definition is_space :: "char \<Rightarrow> bool" where
  \<comment> \<open>\<open>str.isspace\<close> on ASCII: TAB, LF, VT, FF, CR, FS, GS, RS, US and the space.\<close>
  "is_space c = (let n = (of_char c :: nat) in (9 \<le> n \<and> n \<le> 13) \<or> (28 \<le> n \<and> n \<le> 32))"

definition py_strip :: "string \<Rightarrow> string" where
  \<comment> \<open>\<open>s.strip()\<close>\<close>
  "py_strip s = rev (dropWhile is_space (rev (dropWhile is_space s)))"

definition upper_char :: "char \<Rightarrow> char" where
  "upper_char c = (let n = (of_char c :: nat) in if 97 \<le> n \<and> n \<le> 122 then char_of (n - 32) else c)"

definition lower_char :: "char \<Rightarrow> char" where
  "lower_char c = (let n = (of_char c :: nat) in if 65 \<le> n \<and> n \<le> 90 then char_of (n + 32) else c)"

definition py_upper :: "string \<Rightarrow> string" where
  \<comment> \<open>\<open>s.upper()\<close>\<close>
  "py_upper s = map upper_char s"

definition py_lower :: "string \<Rightarrow> string" where
  \<comment> \<open>\<open>s.lower()\<close>\<close>
  "py_lower s = map lower_char s"

definition replace_dot :: "string \<Rightarrow> string" where
  \<comment> \<open>\<open>s.replace(".", "_")\<close>\<close>
  "replace_dot s = map (\<lambda>c. if c = CHR ''.'' then CHR ''_'' else c) s"

definition after_last :: "char \<Rightarrow> string \<Rightarrow> string" where
  \<comment> \<open>the text after the last occurrence of \<open>c\<close>: \<open>s.split(c)[-1]\<close>, \<open>s.rsplit(c, 1)[-1]\<close>\<close>
  "after_last c s = rev (takeWhile (\<lambda>x. x \<noteq> c) (rev s))"

section \<open>Identifier normalisation\<close>

text \<open>\<open>modules/alerts.py\<close>, \<open>_normalize_tid\<close>: \<open>tid.strip().upper().replace(".", "_")\<close>.\<close>

definition alerts_normalize_tid :: "string \<Rightarrow> string" where
  "alerts_normalize_tid tid = replace_dot (py_upper (py_strip tid))"

text \<open>\<open>modules/ontology.py\<close>, \<open>lastfrag\<close> and \<open>_normalize_tid\<close>.\<close>

definition lastfrag :: "string \<Rightarrow> string" where
  "lastfrag iri =
     (if CHR ''#'' \<in> set iri then after_last CHR ''#'' iri
      else if CHR ''/'' \<in> set iri then after_last CHR ''/'' iri
      else iri)"

definition ontology_normalize_tid :: "string \<Rightarrow> string" where
  "ontology_normalize_tid v =
     (if v = [] then []
      else replace_dot (py_upper (lastfrag (py_strip v))))"

text \<open>Upper-casing followed by the replacement of dots, as one map over the characters.\<close>

definition norm_char :: "char \<Rightarrow> char" where
  "norm_char c = (if upper_char c = CHR ''.'' then CHR ''_'' else upper_char c)"


section \<open>JSON values and Python built-ins\<close>

text \<open>
  A parsed alert is a Python value as \<open>json.loads\<close> builds it. A float is carried by its
  Python \<open>repr\<close>; a dict is the list of its items in insertion order (keys are distinct
  in a dict that Python built; \<open>dict_get\<close> reads the first item of a key).
\<close>

datatype json =
    JNull
  | JBool bool
  | JInt int
  | JFloat string
  | JStr string
  | JList "json list"
  | JDict "(string \<times> json) list"

datatype py_error = AttributeError | TypeError | JSONDecodeError

fun py_truthy :: "json \<Rightarrow> bool" where
  "py_truthy JNull = False"
| "py_truthy (JBool b) = b"
| "py_truthy (JInt i) = (i \<noteq> 0)"
| "py_truthy (JFloat r) = (r \<noteq> ''0.0'' \<and> r \<noteq> ''-0.0'')"
| "py_truthy (JStr s) = (s \<noteq> [])"
| "py_truthy (JList xs) = (xs \<noteq> [])"
| "py_truthy (JDict kvs) = (kvs \<noteq> [])"

fun is_dict :: "json \<Rightarrow> bool" where
  "is_dict (JDict kvs) = True"
| "is_dict v = False"

fun is_str_or_int :: "json \<Rightarrow> bool" where
  \<comment> \<open>\<open>isinstance(v, (str, int))\<close>; \<open>bool\<close> is a subclass of \<open>int\<close>\<close>
  "is_str_or_int (JStr s) = True"
| "is_str_or_int (JInt i) = True"
| "is_str_or_int (JBool b) = True"
| "is_str_or_int v = False"

definition dict_get :: "(string \<times> json) list \<Rightarrow> string \<Rightarrow> json" where
  \<comment> \<open>\<open>d.get(k)\<close>: \<open>None\<close> for a missing key\<close>
  "dict_get kvs k = (case map_of kvs k of None \<Rightarrow> JNull | Some v \<Rightarrow> v)"

definition dict_get_default :: "(string \<times> json) list \<Rightarrow> string \<Rightarrow> json \<Rightarrow> json" where
  \<comment> \<open>\<open>d.get(k, default)\<close>\<close>
  "dict_get_default kvs k d = (case map_of kvs k of None \<Rightarrow> d | Some v \<Rightarrow> v)"

fun attr_get :: "json \<Rightarrow> string \<Rightarrow> py_error + json" where
  \<comment> \<open>\<open>v.get(k)\<close> on a value of any type: only a dict has the method\<close>
  "attr_get (JDict kvs) k = Inr (dict_get kvs k)"
| "attr_get v k = Inl AttributeError"

fun attr_get_default :: "json \<Rightarrow> string \<Rightarrow> json \<Rightarrow> py_error + json" where
  "attr_get_default (JDict kvs) k d = Inr (dict_get_default kvs k d)"
| "attr_get_default v k d = Inl AttributeError"

definition or_empty :: "json \<Rightarrow> json" where
  \<comment> \<open>\<open>v or {}\<close>\<close>
  "or_empty v = (if py_truthy v then v else JDict [])"

definition bind_err :: "'e + 'a \<Rightarrow> ('a \<Rightarrow> 'e + 'b) \<Rightarrow> 'e + 'b" where
  \<comment> \<open>sequencing: an exception raised by the first computation ends the second\<close>
  "bind_err m f = (case m of Inl e \<Rightarrow> Inl e | Inr v \<Rightarrow> f v)"

fun collect_err :: "('e + 'a list) list \<Rightarrow> 'e + 'a list" where
  \<comment> \<open>a loop whose iterations each add items: the first exception ends it\<close>
  "collect_err [] = Inr []"
| "collect_err (m # ms) =
     (case m of Inl e \<Rightarrow> Inl e
      | Inr xs \<Rightarrow> (case collect_err ms of Inl e \<Rightarrow> Inl e | Inr ys \<Rightarrow> Inr (xs @ ys)))"

subsection \<open>\<open>str\<close> and \<open>repr\<close>\<close>

definition digit_char :: "nat \<Rightarrow> char" where
  "digit_char n = char_of (48 + n)"

function string_of_nat :: "nat \<Rightarrow> string" where
  "string_of_nat n =
     (if n < 10 then [digit_char n] else string_of_nat (n div 10) @ [digit_char (n mod 10)])"
  by pat_completeness auto
termination
  by (relation "measure id") auto

definition string_of_int :: "int \<Rightarrow> string" where
  "string_of_int i = (if i < 0 then CHR ''-'' # string_of_nat (nat (- i)) else string_of_nat (nat i))"

definition hex_char :: "nat \<Rightarrow> char" where
  "hex_char n = (if n < 10 then char_of (48 + n) else char_of (87 + n))"

definition repr_char :: "char \<Rightarrow> char \<Rightarrow> string" where
  \<comment> \<open>one character of \<open>repr(s)\<close>, inside the quote \<open>q\<close>\<close>
  "repr_char q c =
     (let n = (of_char c :: nat) in
      if c = CHR 0x5C then [CHR 0x5C, CHR 0x5C]
      else if c = q then [CHR 0x5C, q]
      else if n = 9 then [CHR 0x5C, CHR ''t'']
      else if n = 10 then [CHR 0x5C, CHR ''n'']
      else if n = 13 then [CHR 0x5C, CHR ''r'']
      else if n < 32 \<or> n = 127 then [CHR 0x5C, CHR ''x'', hex_char (n div 16), hex_char (n mod 16)]
      else [c])"

definition repr_str :: "string \<Rightarrow> string" where
  \<comment> \<open>\<open>repr\<close> of a string: double quotes when it holds a single quote and no double one\<close>
  "repr_str s =
     (let q = (if CHR 0x27 \<in> set s \<and> CHR 0x22 \<notin> set s then CHR 0x22 else CHR 0x27)
      in [q] @ concat (map (repr_char q) s) @ [q])"

fun join_comma :: "string list \<Rightarrow> string" where
  \<comment> \<open>\<open>", ".join(xs)\<close>\<close>
  "join_comma [] = []"
| "join_comma [x] = x"
| "join_comma (x # y # ys) = x @ '', '' @ join_comma (y # ys)"

fun py_repr :: "json \<Rightarrow> string" where
  "py_repr JNull = ''None''"
| "py_repr (JBool b) = (if b then ''True'' else ''False'')"
| "py_repr (JInt i) = string_of_int i"
| "py_repr (JFloat r) = r"
| "py_repr (JStr s) = repr_str s"
| "py_repr (JList xs) = ''['' @ join_comma (map py_repr xs) @ '']''"
| "py_repr (JDict kvs) =
     ''{'' @ join_comma (map (\<lambda>kv. repr_str (fst kv) @ '': '' @ py_repr (snd kv)) kvs) @ ''}''"

fun py_str :: "json \<Rightarrow> string" where
  \<comment> \<open>\<open>str(v)\<close>: the string itself, the \<open>repr\<close> of anything else\<close>
  "py_str (JStr s) = s"
| "py_str v = py_repr v"


section \<open>Alert ingestion and identifier extraction (\<open>modules/alerts.py\<close>)\<close>

subsection \<open>The pattern \<open>TID_RX\<close>\<close>

text \<open>
  \<open>TID_RX = re.compile(r"\bT\d{4}(?:\.\d{3})?\b", re.IGNORECASE)\<close>. A word boundary
  \<open>\b\<close> lies between a word character and a non-word character or an end of the text.
\<close>

definition is_digit :: "char \<Rightarrow> bool" where
  "is_digit c = (let n = (of_char c :: nat) in 48 \<le> n \<and> n \<le> 57)"

definition is_word_char :: "char \<Rightarrow> bool" where
  \<comment> \<open>\<open>\w\<close>: letters, digits and the underscore\<close>
  "is_word_char c =
     (let n = (of_char c :: nat) in
      (48 \<le> n \<and> n \<le> 57) \<or> (65 \<le> n \<and> n \<le> 90) \<or> (97 \<le> n \<and> n \<le> 122) \<or> n = 95 \<or> 128 \<le> n)"

definition boundary_after :: "string \<Rightarrow> bool" where
  \<comment> \<open>\<open>\b\<close> after a word character, the rest of the text being \<open>s\<close>\<close>
  "boundary_after s = (case s of [] \<Rightarrow> True | c # cs \<Rightarrow> \<not> is_word_char c)"

definition boundary_before :: "char option \<Rightarrow> bool" where
  \<comment> \<open>\<open>\b\<close> before a word character, the character before it being \<open>prev\<close>\<close>
  "boundary_before prev = (case prev of None \<Rightarrow> True | Some p \<Rightarrow> \<not> is_word_char p)"

definition tid_match_len :: "char option \<Rightarrow> string \<Rightarrow> nat option" where
  \<comment> \<open>the length of the match of \<open>TID_RX\<close> that starts at the head of \<open>s\<close>, if there is
      one: the optional group is tried first, and given up when no boundary follows it\<close>
  "tid_match_len prev s =
     (case s of
        [] \<Rightarrow> None
      | c # rest \<Rightarrow>
          if (c = CHR ''T'' \<or> c = CHR ''t'') \<and> boundary_before prev
             \<and> 4 \<le> length rest \<and> list_all is_digit (take 4 rest)
          then
            (let r4 = drop 4 rest in
             if 4 \<le> length r4 \<and> hd r4 = CHR ''.'' \<and> list_all is_digit (take 3 (tl r4))
                \<and> boundary_after (drop 4 r4)
             then Some 9
             else if boundary_after r4 then Some 5 else None)
          else None)"

function findall_tid_from :: "char option \<Rightarrow> string \<Rightarrow> string list" where
  \<comment> \<open>\<open>TID_RX.findall\<close>: the matches from left to right, none overlapping another\<close>
  "findall_tid_from prev [] = []"
| "findall_tid_from prev (c # cs) =
     (case tid_match_len prev (c # cs) of
        None \<Rightarrow> findall_tid_from (Some c) cs
      | Some n \<Rightarrow>
          take n (c # cs)
            # findall_tid_from (Some (last (take n (c # cs)))) (drop (n - 1) cs))"
  by pat_completeness auto
termination
  by (relation "measure (\<lambda>(prev, s). length s)") auto

definition findall_tid :: "string \<Rightarrow> string list" where
  "findall_tid s = findall_tid_from None s"

subsection \<open>\<open>_iter_json\<close>\<close>

fun iter_json :: "json \<Rightarrow> (string \<times> json) list list" where
  \<comment> \<open>every dict reachable from the value, parents first\<close>
  "iter_json (JDict kvs) = kvs # concat (map (\<lambda>kv. iter_json (snd kv)) kvs)"
| "iter_json (JList xs) = concat (map iter_json xs)"
| "iter_json v = []"

subsection \<open>\<open>load_wazuh_alerts_any\<close>\<close>

definition is_linebreak :: "char \<Rightarrow> bool" where
  \<comment> \<open>the line boundaries of \<open>str.splitlines\<close>: LF, VT, FF, CR, FS, GS, RS\<close>
  "is_linebreak c = (let n = (of_char c :: nat) in (10 \<le> n \<and> n \<le> 13) \<or> (28 \<le> n \<and> n \<le> 30))"

fun splitlines_from :: "string \<Rightarrow> string \<Rightarrow> string list" where
  \<comment> \<open>\<open>cur\<close> is the line being read, reversed; CR LF is one boundary\<close>
  "splitlines_from cur [] = (if cur = [] then [] else [rev cur])"
| "splitlines_from cur [c] = (if is_linebreak c then [rev cur] else [rev (c # cur)])"
| "splitlines_from cur (c # d # cs) =
     (if c = CHR 0x0D \<and> d = CHR 0x0A then rev cur # splitlines_from [] cs
      else if is_linebreak c then rev cur # splitlines_from [] (d # cs)
      else splitlines_from (c # cur) (d # cs))"

definition py_splitlines :: "string \<Rightarrow> string list" where
  "py_splitlines s = splitlines_from [] s"

definition starts_with_brace :: "string \<Rightarrow> bool" where
  \<comment> \<open>\<open>s.startswith("{")\<close>\<close>
  "starts_with_brace s = (case s of [] \<Rightarrow> False | c # cs \<Rightarrow> c = CHR ''{'')"

fun py_iter :: "json \<Rightarrow> py_error + json list" where
  \<comment> \<open>what a \<open>for\<close> loop over the value visits: the items of a list, the keys of a dict,
      the characters of a string; any other value is not iterable\<close>
  "py_iter (JList xs) = Inr xs"
| "py_iter (JDict kvs) = Inr (map (\<lambda>kv. JStr (fst kv)) kvs)"
| "py_iter (JStr s) = Inr (map (\<lambda>c. JStr [c]) s)"
| "py_iter v = Inl TypeError"

fun hit_source :: "json \<Rightarrow> json list" where
  \<comment> \<open>\<open>hit.get("_source")\<close> of a hit that is a dict with a truthy \<open>_source\<close>\<close>
  "hit_source (JDict kvs) =
     (if py_truthy (dict_get kvs ''_source'') then [dict_get kvs ''_source''] else [])"
| "hit_source v = []"

fun hits_envelope :: "json \<Rightarrow> py_error + json" where
  \<comment> \<open>the end of \<open>load_wazuh_alerts_any\<close>, from the parsed document on\<close>
  "hits_envelope (JDict kvs) =
     (case dict_get kvs ''hits'' of
        JDict hkvs \<Rightarrow>
          bind_err (py_iter (dict_get_default hkvs ''hits'' (JList [])))
            (\<lambda>hits. Inr (JDict [(''_hits_sources'', JList (concat (map hit_source hits)))]))
      | other \<Rightarrow> Inr (JDict kvs))"
| "hits_envelope v = Inr v"

datatype payload = Text string | Obj json

text \<open>
  \<open>json.loads\<close> is the standard library's parser: it is the parameter \<open>loads\<close>, whose
  \<open>None\<close> is a \<open>JSONDecodeError\<close>. A \<open>bytes\<close> payload is not modelled.
\<close>

fun load_wazuh_alerts_any :: "(string \<Rightarrow> json option) \<Rightarrow> payload \<Rightarrow> py_error + json" where
  "load_wazuh_alerts_any loads (Obj v) = Inr v"
| "load_wazuh_alerts_any loads (Text t) =
     (let txt = py_strip t in
      if txt = [] then Inr (JDict [])
      else
        let lines = filter (\<lambda>line. py_strip line \<noteq> []) (py_splitlines txt) in
        if 1 < length lines \<and> list_all (\<lambda>line. starts_with_brace (py_strip line)) lines
        then Inr (JDict [(''_ndjson'', JList (List.map_filter loads lines))])
        else (case loads txt of
                None \<Rightarrow> Inl JSONDecodeError
              | Some data \<Rightarrow> hits_envelope data))"

subsection \<open>\<open>_collect_tids_from_any\<close>\<close>

definition tids_of_ids :: "json \<Rightarrow> string list" where
  \<comment> \<open>\<open>rule.mitre.id\<close>: a string, or a list whose strings and integers are kept\<close>
  "tids_of_ids ids =
     (case ids of
        JStr s \<Rightarrow> [alerts_normalize_tid s]
      | JList vs \<Rightarrow> map (\<lambda>v. alerts_normalize_tid (py_str v)) (filter is_str_or_int vs)
      | other \<Rightarrow> [])"

definition technique_id :: "json \<Rightarrow> json" where
  \<comment> \<open>\<open>technique.get("id") if isinstance(technique, dict) else technique\<close>\<close>
  "technique_id t = (case t of JDict kvs \<Rightarrow> dict_get kvs ''id'' | other \<Rightarrow> t)"

definition tids_of_techniques :: "json \<Rightarrow> string list" where
  \<comment> \<open>\<open>rule.mitre.technique\<close> and \<open>rule.mitre.techniques\<close>\<close>
  "tids_of_techniques arr =
     (case arr of
        JList ts \<Rightarrow>
          map (\<lambda>t. alerts_normalize_tid (py_str (technique_id t)))
            (filter (\<lambda>t. is_str_or_int (technique_id t)) ts)
      | other \<Rightarrow> [])"

definition tids_of_text :: "json \<Rightarrow> string list" where
  \<comment> \<open>\<open>message\<close>, \<open>description\<close>, \<open>full_log\<close>\<close>
  "tids_of_text v =
     (case v of JStr s \<Rightarrow> map alerts_normalize_tid (findall_tid s) | other \<Rightarrow> [])"

definition tids_of_candidate :: "json \<Rightarrow> string list" where
  \<comment> \<open>the alias paths: every item of a list is kept\<close>
  "tids_of_candidate c =
     (case c of
        JStr s \<Rightarrow> [alerts_normalize_tid s]
      | JList vs \<Rightarrow> map (\<lambda>v. alerts_normalize_tid (py_str v)) vs
      | other \<Rightarrow> [])"

definition alias_candidate :: "(string \<times> json) list \<Rightarrow> py_error + json" where
  \<comment> \<open>\<open>sub.get("rule", {}).get("mitre", {}).get("id") or sub.get("mitre", {}).get("id")\<close>\<close>
  "alias_candidate sub =
     bind_err (attr_get_default (dict_get_default sub ''rule'' (JDict [])) ''mitre'' (JDict []))
       (\<lambda>m. bind_err (attr_get m ''id'')
         (\<lambda>a. if py_truthy a then Inr a
              else attr_get (dict_get_default sub ''mitre'' (JDict [])) ''id''))"

definition tids_of_alias :: "json \<Rightarrow> py_error + string list" where
  \<comment> \<open>\<open>fields\<close> and \<open>data\<close>\<close>
  "tids_of_alias sub =
     (case sub of
        JDict skvs \<Rightarrow> bind_err (alias_candidate skvs) (\<lambda>c. Inr (tids_of_candidate c))
      | other \<Rightarrow> Inr [])"

definition collect_node :: "(string \<times> json) list \<Rightarrow> py_error + string list" where
  \<comment> \<open>the body of the loop over the nodes: the identifiers one dict adds\<close>
  "collect_node node =
     bind_err (attr_get (or_empty (dict_get node ''rule'')) ''mitre'')
       (\<lambda>m. let mitre = or_empty m in
         bind_err (attr_get mitre ''id'')
           (\<lambda>ids. bind_err (attr_get mitre ''technique'')
             (\<lambda>arr1. bind_err (attr_get mitre ''techniques'')
               (\<lambda>arr2. bind_err (tids_of_alias (dict_get node ''fields''))
                 (\<lambda>al1. bind_err (tids_of_alias (dict_get node ''data''))
                   (\<lambda>al2. Inr (tids_of_ids ids
                                @ tids_of_techniques arr1 @ tids_of_techniques arr2
                                @ tids_of_text (dict_get node ''message'')
                                @ tids_of_text (dict_get node ''description'')
                                @ tids_of_text (dict_get node ''full_log'')
                                @ al1 @ al2)))))))"

text \<open>
  The Python set of identifiers is the list of its elements, each once; the order in which
  Python visits a set is not fixed, and the sorted result below does not depend on it.
\<close>

definition collect_tids_from_any :: "json \<Rightarrow> py_error + string list" where
  "collect_tids_from_any obj =
     bind_err (collect_err (map collect_node (iter_json obj))) (\<lambda>tids. Inr (remdups tids))"

subsection \<open>\<open>extract_tech_ids_universal\<close>\<close>

definition extend_unique :: "string list \<Rightarrow> string list \<Rightarrow> string list" where
  "extend_unique tids new_items =
     fold (\<lambda>tid acc. if tid \<in> set acc then acc else acc @ [tid]) new_items tids"

fun extend_all :: "string list \<Rightarrow> json list \<Rightarrow> py_error + string list" where
  \<comment> \<open>the loops over the records: only a dict is read\<close>
  "extend_all tids [] = Inr tids"
| "extend_all tids (x # xs) =
     (if is_dict x
      then bind_err (collect_tids_from_any x) (\<lambda>new. extend_all (extend_unique tids new) xs)
      else extend_all tids xs)"

definition or_list :: "json \<Rightarrow> json" where
  \<comment> \<open>\<open>v or []\<close>\<close>
  "or_list v = (if py_truthy v then v else JList [])"

definition sorted_records :: "py_error + json list \<Rightarrow> py_error + string list" where
  "sorted_records items =
     bind_err items (\<lambda>xs. bind_err (extend_all [] xs) (\<lambda>tids. Inr (sort tids)))"

fun extract_tech_ids_universal :: "json \<Rightarrow> py_error + string list" where
  "extract_tech_ids_universal (JDict kvs) =
     (if ''_hits_sources'' \<in> fst ` set kvs
        then sorted_records (py_iter (or_list (dict_get kvs ''_hits_sources'')))
      else if ''_ndjson'' \<in> fst ` set kvs
        then sorted_records (py_iter (or_list (dict_get kvs ''_ndjson'')))
      else sorted_records (Inr [JDict kvs]))"
| "extract_tech_ids_universal (JList items) = sorted_records (Inr items)"
| "extract_tech_ids_universal v = Inr []"


section \<open>The lexical retrieval index (\<open>modules/rag.py\<close>)\<close>

subsection \<open>\<open>_tokenize\<close>\<close>

definition is_token_char :: "char \<Rightarrow> bool" where
  \<comment> \<open>the class \<open>[\w-]\<close> of \<open>TOKEN_RX\<close>\<close>
  "is_token_char c = (is_word_char c \<or> c = CHR ''-'')"

fun tokens_from :: "string \<Rightarrow> string \<Rightarrow> string list" where
  \<comment> \<open>\<open>TOKEN_RX.findall\<close>: the maximal runs of token characters; \<open>cur\<close> is the run
      being read, reversed\<close>
  "tokens_from cur [] = (if cur = [] then [] else [rev cur])"
| "tokens_from cur (c # cs) =
     (if is_token_char c then tokens_from (c # cur) cs
      else (if cur = [] then [] else [rev cur]) @ tokens_from [] cs)"

definition tokenize :: "string \<Rightarrow> string list" where
  "tokenize text = (if text = [] then [] else map py_lower (tokens_from [] text))"

subsection \<open>\<open>Counter\<close>, \<open>_norm\<close>, \<open>_cosine\<close>\<close>

text \<open>
  A \<open>Counter\<close> is the list of its items, the keys in the order of their first
  occurrence. The scores are Python floats; they are modelled as real numbers.
\<close>

type_synonym counter = "(string \<times> nat) list"

fun counter_add :: "string \<Rightarrow> counter \<Rightarrow> counter" where
  "counter_add t [] = [(t, 1)]"
| "counter_add t ((k, n) # kvs) =
     (if k = t then (k, n + 1) # kvs else (k, n) # counter_add t kvs)"

definition Counter :: "string list \<Rightarrow> counter" where
  "Counter toks = fold counter_add toks []"

definition norm_of :: "counter \<Rightarrow> real" where
  \<comment> \<open>\<open>_norm\<close>: \<open>math.sqrt(sum(v * v for v in counter.values())) or 1.0\<close>\<close>
  "norm_of cnt =
     (let r = sqrt (real (sum_list (map (\<lambda>kv. snd kv * snd kv) cnt)))
      in if r \<noteq> 0 then r else 1)"

definition dot_score :: "counter \<Rightarrow> counter \<Rightarrow> nat" where
  \<comment> \<open>the loop of \<open>_cosine\<close>: the products of the counts of the shared tokens\<close>
  "dot_score vec_a vec_b =
     sum_list (map (\<lambda>kv. case map_of vec_b (fst kv) of None \<Rightarrow> 0 | Some w \<Rightarrow> snd kv * w) vec_a)"

definition cosine :: "counter \<Rightarrow> real \<Rightarrow> counter \<Rightarrow> real \<Rightarrow> real" where
  \<comment> \<open>\<open>_cosine\<close>\<close>
  "cosine vec_a norm_a vec_b norm_b =
     (if vec_a = [] \<or> vec_b = [] then 0
      else let score = real (dot_score vec_a vec_b)
           in if score \<noteq> 0 then score / (norm_a * norm_b) else 0)"

subsection \<open>\<open>_snippet\<close>\<close>

definition ellipsis :: string where
  \<comment> \<open>the marker U+2026, one character of a Python string: it stands here as the one
      character 0x85\<close>
  "ellipsis = [CHR 0x85]"

definition before_last_space :: "string \<Rightarrow> string" where
  \<comment> \<open>\<open>s.rsplit(" ", 1)[0]\<close>: the text before the last space, all of \<open>s\<close> without one\<close>
  "before_last_space s =
     (if CHR '' '' \<in> set s then rev (tl (dropWhile (\<lambda>c. c \<noteq> CHR '' '') (rev s))) else s)"

definition snippet :: "string \<Rightarrow> nat \<Rightarrow> string" where
  \<comment> \<open>\<open>_snippet(text, limit)\<close>, for a limit that is not negative\<close>
  "snippet text limit =
     (if length text \<le> limit then text
      else before_last_space (take limit text) @ ellipsis)"


subsection \<open>\<open>SimpleRAG\<close>\<close>

type_synonym document = "(string \<times> string) list"

record rag_doc =
  doc_title :: string
  doc_content :: string

record rag_result =
  title :: string
  content :: string
  snippet_of :: string
  score :: real

record simple_rag =
  docs :: "rag_doc list"
  vectors :: "counter list"
  norms :: "real list"

definition get_or :: "document \<Rightarrow> string \<Rightarrow> string \<Rightarrow> string" where
  \<comment> \<open>\<open>doc.get(key) or default\<close>\<close>
  "get_or doc k d = (case map_of doc k of None \<Rightarrow> d | Some v \<Rightarrow> if v = [] then d else v)"

definition rag_init :: "document list \<Rightarrow> simple_rag" where
  \<comment> \<open>\<open>SimpleRAG.__init__\<close>\<close>
  "rag_init documents =
     (let contents = map (\<lambda>doc. py_strip (get_or doc ''content'' [])) documents
      in \<lparr> docs = map (\<lambda>doc. \<lparr> doc_title = py_strip (get_or doc ''title'' ''Section''),
                               doc_content = py_strip (get_or doc ''content'' []) \<rparr>) documents,
           vectors = map (\<lambda>c. Counter (tokenize c)) contents,
           norms = map (\<lambda>c. norm_of (Counter (tokenize c))) contents \<rparr>)"

definition make_result :: "rag_doc \<Rightarrow> real \<Rightarrow> rag_result" where
  "make_result d s =
     \<lparr> title = doc_title d, content = doc_content d,
       snippet_of = snippet (doc_content d) 260, score = s \<rparr>"

definition py_take :: "int \<Rightarrow> 'a list \<Rightarrow> 'a list" where
  \<comment> \<open>the slice \<open>xs[:k]\<close>: a negative \<open>k\<close> counts from the end\<close>
  "py_take k xs = (if 0 \<le> k then take (nat k) xs else take (length xs - nat (- k)) xs)"

definition scored_docs :: "simple_rag \<Rightarrow> string \<Rightarrow> rag_result list" where
  \<comment> \<open>the loop of \<open>search\<close>: the documents of strictly positive similarity\<close>
  "scored_docs rag query =
     (let q_vec = Counter (tokenize query); q_norm = norm_of q_vec
      in concat (map (\<lambda>(d, vec, nrm).
                        let sim = cosine q_vec q_norm vec nrm
                        in if 0 < sim then [make_result d sim] else [])
                     (zip (docs rag) (zip (vectors rag) (norms rag)))))"

definition search :: "simple_rag \<Rightarrow> string \<Rightarrow> int \<Rightarrow> rag_result list" where
  \<comment> \<open>\<open>SimpleRAG.search\<close>; the sort is stable, the greatest score first\<close>
  "search rag query top_k =
     (if docs rag = [] then []
      else
        let scored = scored_docs rag query;
            scored = (if scored = [] \<and> docs rag \<noteq> [] then [make_result (hd (docs rag)) 0] else scored);
            ranked = sort_key (\<lambda>r. - score r) scored
        in py_take (if top_k \<noteq> 0 then top_k else 1) ranked)"


section \<open>The knowledge graph and the correlation engine (\<open>modules/ontology.py\<close>)\<close>

text \<open>
  An rdflib graph is a list of triples; a node is an IRI (\<open>URIRef\<close>) or a literal, read
  by \<open>str\<close> as its text. Blank nodes are not modelled.
\<close>

datatype node = IRI string | Literal string

type_synonym triple = "node \<times> node \<times> node"

type_synonym graph = "triple list"

fun str_of :: "node \<Rightarrow> string" where
  \<comment> \<open>\<open>str(t)\<close> in Python, \<open>STR(?t)\<close> in SPARQL\<close>
  "str_of (IRI s) = s"
| "str_of (Literal s) = s"

definition BRIDGE :: "string \<Rightarrow> node" where
  "BRIDGE name = IRI (''http://example.org/bridge#'' @ name)"

definition VERIS :: "string \<Rightarrow> node" where
  "VERIS name = IRI (''http://example.org/veris#'' @ name)"

definition RDF_type :: node where
  "RDF_type = IRI ''http://www.w3.org/1999/02/22-rdf-syntax-ns#type''"

definition objects :: "graph \<Rightarrow> node \<Rightarrow> node \<Rightarrow> node list" where
  \<comment> \<open>\<open>g.objects(subject, predicate)\<close>\<close>
  "objects g s p = map (\<lambda>t. snd (snd t)) (filter (\<lambda>t. fst t = s \<and> fst (snd t) = p) g)"

definition subjects :: "graph \<Rightarrow> node \<Rightarrow> node \<Rightarrow> node list" where
  \<comment> \<open>\<open>g.subjects(predicate, object)\<close>\<close>
  "subjects g p ob = map fst (filter (\<lambda>t. fst (snd t) = p \<and> snd (snd t) = ob) g)"

definition techs_from_incident :: "graph \<Rightarrow> node \<Rightarrow> string list" where
  \<comment> \<open>\<open>_techs_from_incident\<close>: the direct techniques, then those of the actions\<close>
  "techs_from_incident g incident =
     remdups
       (map (\<lambda>t. ontology_normalize_tid (str_of t)) (objects g incident (BRIDGE ''involvesTechnique''))
        @ concat (map (\<lambda>a. map (\<lambda>t. ontology_normalize_tid (str_of t))
                              (objects g a (BRIDGE ''relatesToTechnique'')))
                      (objects g incident (BRIDGE ''hasAction''))))"

definition scan_incidents :: "graph \<Rightarrow> string list \<Rightarrow> string list" where
  \<comment> \<open>the fallback of \<open>get_incidents_by_tech\<close>: the scan of every incident\<close>
  "scan_incidents g tids_norm =
     sort (remdups
       (map str_of
          (filter (\<lambda>inc. list_ex (\<lambda>t. t \<in> set tids_norm) (techs_from_incident g inc))
             (subjects g RDF_type (VERIS ''Incident'')))))"

subsection \<open>The SPARQL query of \<open>get_incidents_by_tech\<close>\<close>

text \<open>
  The query, evaluated as SPARQL 1.1 defines it:
  \<^verbatim>\<open>
  SELECT DISTINCT ?incident WHERE {
    ?incident a veris:Incident .
    OPTIONAL { ?incident bridge:involvesTechnique ?t1 . }
    OPTIONAL { ?incident bridge:hasAction/bridge:relatesToTechnique ?t2 . }
    BIND(COALESCE(?t1, ?t2) AS ?t)
    BIND(REPLACE(STRAFTER(STR(?t), "#"), "\\.", "_") AS ?h)
    BIND(REPLACE(STRAFTER(STR(?t), "/"), "\\.", "_") AS ?s)
    VALUES ?tid { ... }
    FILTER( LCASE(?h) = LCASE(?tid) || LCASE(?s) = LCASE(?tid) )
  }
  \<close>
  Each \<open>OPTIONAL\<close> is a left join: it binds its variable to every match, and leaves it
  unbound when there is none. An unbound \<open>?t\<close> leaves \<open>?h\<close> and \<open>?s\<close> unbound, and the
  filter then rejects the row.
\<close>

definition strafter :: "char \<Rightarrow> string \<Rightarrow> string" where
  \<comment> \<open>\<open>STRAFTER(s, c)\<close>: the text after the first \<open>c\<close>, empty when \<open>s\<close> has none\<close>
  "strafter c s = (if c \<in> set s then tl (dropWhile (\<lambda>x. x \<noteq> c) s) else [])"

definition optional_bindings :: "node list \<Rightarrow> node option list" where
  \<comment> \<open>the bindings a left join gives a variable\<close>
  "optional_bindings ts = (if ts = [] then [None] else map Some ts)"

definition coalesce :: "node option \<Rightarrow> node option \<Rightarrow> node option" where
  "coalesce t1 t2 = (case t1 of Some t \<Rightarrow> Some t | None \<Rightarrow> t2)"

definition filter_accepts :: "node option \<Rightarrow> string \<Rightarrow> bool" where
  \<comment> \<open>the two \<open>BIND\<close>s of \<open>?h\<close> and \<open>?s\<close> and the \<open>FILTER\<close>, for one row\<close>
  "filter_accepts t tid =
     (case t of
        None \<Rightarrow> False
      | Some n \<Rightarrow>
          py_lower (replace_dot (strafter CHR ''#'' (str_of n))) = py_lower tid
          \<or> py_lower (replace_dot (strafter CHR ''/'' (str_of n))) = py_lower tid)"

definition incident_rows :: "graph \<Rightarrow> node \<Rightarrow> node option list" where
  \<comment> \<open>the values of \<open>?t\<close> in the rows of one incident\<close>
  "incident_rows g incident =
     concat (map (\<lambda>t1. map (\<lambda>t2. coalesce t1 t2)
                     (optional_bindings
                        (concat (map (\<lambda>a. objects g a (BRIDGE ''relatesToTechnique''))
                                     (objects g incident (BRIDGE ''hasAction''))))))
                 (optional_bindings (objects g incident (BRIDGE ''involvesTechnique''))))"

definition sparql_incidents :: "graph \<Rightarrow> string list \<Rightarrow> string list" where
  \<comment> \<open>the rows of the query, \<open>str(r.incident)\<close> of each, for the identifiers of \<open>VALUES\<close>\<close>
  "sparql_incidents g tids =
     remdups
       (map str_of
          (filter (\<lambda>inc. list_ex (\<lambda>t. list_ex (filter_accepts t) tids) (incident_rows g inc))
             (subjects g RDF_type (VERIS ''Incident''))))"

definition sparql_engine :: "graph \<Rightarrow> string list \<Rightarrow> string list option" where
  \<comment> \<open>a backend that runs the query and does not raise (the identifiers hold no quote
      and no backslash, so that the text of the query is well formed)\<close>
  "sparql_engine g tids = Some (sparql_incidents g tids)"

subsection \<open>\<open>get_incidents_by_tech\<close>\<close>

text \<open>
  The backend that runs the query is the parameter \<open>run_query\<close>: it gets the graph and
  the sorted identifiers of \<open>VALUES\<close>, and its \<open>None\<close> is an exception of \<open>g.query\<close>,
  which the code catches.
\<close>

definition get_incidents_by_tech ::
  "(graph \<Rightarrow> string list \<Rightarrow> string list option) \<Rightarrow> graph \<Rightarrow> string list \<Rightarrow> string list" where
  "get_incidents_by_tech run_query g tech_ids =
     (if tech_ids = [] then []
      else
        let tids_norm = remdups (map ontology_normalize_tid (filter (\<lambda>t. t \<noteq> []) tech_ids)) in
        (case run_query g (sort tids_norm) of
           Some (r # rows) \<Rightarrow> r # rows
         | other \<Rightarrow> scan_incidents g tids_norm))"

text \<open>
  Two graphs. In the first, both incidents have the direct technique T1190: the first
  as an IRI that ends in \<open>#T1190\<close>, the second as an IRI that ends in \<open>/T1190\<close>.
  In the second, the first incident has the direct technique T1190 and an action related
  to T1059, and the second incident has the direct technique T1059.
\<close>

definition slash_graph :: graph where
  "slash_graph =
     [ (VERIS ''incident_1'', RDF_type, VERIS ''Incident''),
       (VERIS ''incident_2'', RDF_type, VERIS ''Incident''),
       (VERIS ''incident_1'', BRIDGE ''involvesTechnique'', IRI ''http://example.org/mitre#T1190''),
       (VERIS ''incident_2'', BRIDGE ''involvesTechnique'', IRI ''http://example.org/mitre/T1190'') ]"

definition action_graph :: graph where
  "action_graph =
     [ (VERIS ''incident_1'', RDF_type, VERIS ''Incident''),
       (VERIS ''incident_2'', RDF_type, VERIS ''Incident''),
       (VERIS ''incident_1'', BRIDGE ''involvesTechnique'', IRI ''http://example.org/mitre#T1190''),
       (VERIS ''incident_1'', BRIDGE ''hasAction'', VERIS ''action_1''),
       (VERIS ''action_1'', BRIDGE ''relatesToTechnique'', IRI ''http://example.org/mitre#T1059''),
       (VERIS ''incident_2'', BRIDGE ''involvesTechnique'', IRI ''http://example.org/mitre#T1059'') ]"


section \<open>Properties of the string operations\<close>




lemma replace_dot_upper: "replace_dot (py_upper s) = map norm_char s"
  by (simp add: replace_dot_def py_upper_def norm_char_def)











lemma set_py_strip: "set (py_strip s) \<subseteq> set s"
  unfolding py_strip_def
  by (metis set_rev set_dropWhileD subsetI)

lemma in_set_dropWhile: "c \<in> set s \<Longrightarrow> \<not> P c \<Longrightarrow> c \<in> set (dropWhile P s)"
  by (induction s) auto

lemma in_set_py_strip: "c \<in> set s \<Longrightarrow> \<not> is_space c \<Longrightarrow> c \<in> set (py_strip s)"
  by (simp add: py_strip_def in_set_dropWhile)




lemma length_takeWhile_neq_less: "c \<in> set xs \<Longrightarrow> length (takeWhile (\<lambda>x. x \<noteq> c) xs) < length xs"
  by (induction xs) auto

lemma length_after_last_less: "c \<in> set s \<Longrightarrow> length (after_last c s) < length s"
  using length_takeWhile_neq_less[of c "rev s"] by (simp add: after_last_def)



lemma alerts_norm_map: "alerts_normalize_tid x = map norm_char (py_strip x)"
  by (simp add: alerts_normalize_tid_def replace_dot_upper)

lemma onto_norm_map: "ontology_normalize_tid x = map norm_char (lastfrag (py_strip x))"
  by (simp add: ontology_normalize_tid_def replace_dot_upper py_strip_def lastfrag_def)







lemma lastfrag_length_eq:
  "(length (lastfrag s) = length s) = (CHR ''#'' \<notin> set s \<and> CHR ''/'' \<notin> set s)"
  using length_after_last_less[of "CHR ''#''" s] length_after_last_less[of "CHR ''/''" s]
  by (auto simp: lastfrag_def)


lemma not_space_hash_slash: "\<not> is_space CHR ''#''" "\<not> is_space CHR ''/''"
  by (simp_all add: is_space_def)

lemma in_py_strip_iff:
  "\<not> is_space c \<Longrightarrow> (c \<in> set (py_strip s)) = (c \<in> set s)"
  using set_py_strip[of s] in_set_py_strip[of c s] by auto

lemma normalizers_agree_aux:
  "(alerts_normalize_tid x = ontology_normalize_tid x) = (CHR ''#'' \<notin> set x \<and> CHR ''/'' \<notin> set x)"
proof -
  let ?s = "py_strip x"
  have "(alerts_normalize_tid x = ontology_normalize_tid x) = (map norm_char ?s = map norm_char (lastfrag ?s))"
    by (simp add: alerts_norm_map onto_norm_map)
  also have "\<dots> = (length (lastfrag ?s) = length ?s)"
  proof
    assume "map norm_char ?s = map norm_char (lastfrag ?s)"
    then show "length (lastfrag ?s) = length ?s" by (metis length_map)
  next
    assume "length (lastfrag ?s) = length ?s"
    then have "CHR ''#'' \<notin> set ?s \<and> CHR ''/'' \<notin> set ?s" by (simp add: lastfrag_length_eq)
    then have "lastfrag ?s = ?s" by (simp add: lastfrag_def)
    then show "map norm_char ?s = map norm_char (lastfrag ?s)" by simp
  qed
  also have "\<dots> = (CHR ''#'' \<notin> set x \<and> CHR ''/'' \<notin> set x)"
    by (simp add: lastfrag_length_eq in_py_strip_iff not_space_hash_slash)
  finally show ?thesis .
qed




section \<open>Properties of the identifier extraction\<close>
















section \<open>Properties of the retrieval index\<close>
















section \<open>The claims about identifier normalisation\<close>

text \<open>
  C3. The alert-side normaliser (\<open>alerts._normalize_tid\<close>) and the graph-side
  normaliser (\<open>ontology._normalize_tid\<close>) are two functions: only the second reduces
  an IRI to its last fragment. They compute the same result exactly on the strings that
  hold neither \<open>#\<close> nor \<open>/\<close>. Both map \<open>t1059.001\<close> to \<open>T1059_001\<close>; the
  graph-side one maps \<open>http://x/ns#t1190\<close> to \<open>T1190\<close>, the alert-side one maps it to
  \<open>HTTP://X/NS#T1190\<close>.
\<close>

theorem normalizers_agree_iff:
  "(alerts_normalize_tid x = ontology_normalize_tid x)
     = (CHR ''#'' \<notin> set x \<and> CHR ''/'' \<notin> set x)
   \<and> alerts_normalize_tid ''t1059.001'' = ''T1059_001''
   \<and> ontology_normalize_tid ''t1059.001'' = ''T1059_001''
   \<and> ontology_normalize_tid ''http://x/ns#t1190'' = ''T1190''
   \<and> alerts_normalize_tid ''http://x/ns#t1190'' = ''HTTP://X/NS#T1190''"
proof -
  have "alerts_normalize_tid ''t1059.001'' = ''T1059_001''" by code_simp
  moreover have "ontology_normalize_tid ''t1059.001'' = ''T1059_001''" by code_simp
  moreover have "ontology_normalize_tid ''http://x/ns#t1190'' = ''T1190''" by code_simp
  moreover have "alerts_normalize_tid ''http://x/ns#t1190'' = ''HTTP://X/NS#T1190''" by code_simp
  ultimately show ?thesis using normalizers_agree_aux[of x] by simp
qed

text \<open>The two normalisers agree on the identifier \<open>T1059.001\<close>, which holds no \<open>#\<close> and no \<open>/\<close>.\<close>

theorem normalizers_agree_witness:
  "alerts_normalize_tid ''T1059.001'' = ontology_normalize_tid ''T1059.001''"
  using normalizers_agree_iff[of "''T1059.001''"] by simp

text \<open>As stated, C3 fails on its own second example: the alert-side normaliser keeps the whole IRI.\<close>

theorem normalizers_differ_counterexample:
  "alerts_normalize_tid ''http://x/ns#t1190'' \<noteq> ontology_normalize_tid ''http://x/ns#t1190''
   \<and> alerts_normalize_tid ''http://x/ns#t1190'' \<noteq> ''T1190''"
  by code_simp




section \<open>The claims about alert ingestion and identifier extraction\<close>

text \<open>
  C2. \<open>load_wazuh_alerts_any\<close> returns the empty batch \<open>{}\<close> for a text that is empty
  once trimmed, but the top-level \<open>json.loads(txt)\<close> is not guarded: a text of at most
  one non-blank line that the parser rejects raises \<open>JSONDecodeError\<close>.
\<close>

theorem load_unparseable_raises:
  "(py_strip t = [] \<longrightarrow> load_wazuh_alerts_any loads (Text t) = Inr (JDict []))
   \<and> (py_strip t \<noteq> []
        \<and> length (filter (\<lambda>line. py_strip line \<noteq> []) (py_splitlines (py_strip t))) \<le> 1
        \<and> loads (py_strip t) = None
      \<longrightarrow> load_wazuh_alerts_any loads (Text t) = Inl JSONDecodeError)"
  by (simp add: Let_def)

text \<open>The text \<open>not json\<close>, with a parser that accepts only \<open>{}\<close>.\<close>

theorem load_unparseable_raises_witness:
  "load_wazuh_alerts_any (\<lambda>s. if s = ''{}'' then Some (JDict []) else None) (Text ''not json'')
     = Inl JSONDecodeError
   \<and> load_wazuh_alerts_any (\<lambda>s. if s = ''{}'' then Some (JDict []) else None) (Text ''  '')
     = Inr (JDict [])"
proof -
  let ?loads = "\<lambda>s. if s = ''{}'' then Some (JDict []) else None"
  have a: "py_strip ''not json'' = ''not json''" by code_simp
  have b: "length (filter (\<lambda>line. py_strip line \<noteq> []) (py_splitlines ''not json'')) \<le> 1"
    by code_simp
  have c: "py_strip ''  '' = []" by code_simp
  show ?thesis
    using load_unparseable_raises[of "''not json''" ?loads]
      load_unparseable_raises[of "''  ''" ?loads] a b c
    by simp
qed




text \<open>
  C9. The list under \<open>rule.mitre.id\<close> is filtered (\<open>isinstance(value, (str, int))\<close>), but
  the lists under the alias paths \<open>fields.*\<close> and \<open>data.*\<close> are not: on
  \<open>{"data": {"mitre": {"id": [null]}}}\<close> the value \<open>None\<close> is turned into the
  identifier \<open>NONE\<close>, while \<open>{"rule": {"mitre": {"id": [null]}}}\<close> yields nothing.
\<close>

theorem alias_path_keeps_non_string:
  "extract_tech_ids_universal (JDict [(''data'', JDict [(''mitre'', JDict [(''id'', JList [JNull])])])])
     = Inr [''NONE'']
   \<and> extract_tech_ids_universal (JDict [(''rule'', JDict [(''mitre'', JDict [(''id'', JList [JNull])])])])
     = Inr []"
  by code_simp


section \<open>The claims about the retrieval index\<close>






text \<open>
  C10. On an index built from an empty corpus, \<open>search\<close> returns the empty list for
  every query and every \<open>top_k\<close>.
\<close>

theorem search_empty_corpus: "search (rag_init []) query top_k = []"
  by (simp add: search_def rag_init_def)


section \<open>The claims about the correlation engine\<close>

text \<open>
  C1. The SPARQL query and the scan both run and differ.
  On the first graph and the identifier \<open>T1190\<close>: \<open>STRAFTER(STR(?t), "/")\<close> is the text
  after the first \<open>/\<close> of the IRI, not its last fragment, so the query misses the
  technique \<open>http://example.org/mitre/T1190\<close> that the scan finds; the query's result is
  not empty, so \<open>get_incidents_by_tech\<close> returns it and the second incident is lost.
  On the second graph and the identifier \<open>T1059\<close>: \<open>COALESCE(?t1, ?t2)\<close> hides the
  techniques of the actions of an incident that has a direct technique, and the first
  incident is lost.
\<close>

theorem primary_differs_from_scan:
  "sparql_incidents slash_graph [''T1190''] = [''http://example.org/veris#incident_1'']
   \<and> scan_incidents slash_graph [''T1190'']
       = [''http://example.org/veris#incident_1'', ''http://example.org/veris#incident_2'']
   \<and> get_incidents_by_tech sparql_engine slash_graph [''T1190'']
       = [''http://example.org/veris#incident_1'']
   \<and> sparql_incidents action_graph [''T1059''] = [''http://example.org/veris#incident_2'']
   \<and> scan_incidents action_graph [''T1059'']
       = [''http://example.org/veris#incident_1'', ''http://example.org/veris#incident_2'']
   \<and> get_incidents_by_tech sparql_engine action_graph [''T1059'']
       = [''http://example.org/veris#incident_2'']"
  by code_simp

text \<open>
  C6. For every graph and every backend, \<open>get_incidents_by_tech\<close> returns the empty list
  for the empty list of identifiers: the result depends neither on the graph nor on what
  the backend would answer.
\<close>

theorem get_incidents_by_tech_empty: "get_incidents_by_tech run_query g [] = []"
  by (simp add: get_incidents_by_tech_def)


end
